theory Spec2Isabelle
  imports Main
begin

section \<open>Python values, exceptions and string primitives\<close>

text \<open>
  The client classes \<open>Sources\<close> (new_fred/sources.py) and \<open>Tags\<close> (new_fred/tags.py) build
  request URLs by string concatenation, hand them to the inherited \<open>_fetch_data\<close> and keep
  the latest answer of every method in a dictionary of the instance.  Exceptions are values:
  a computation yields \<open>Inl e\<close> when it raises \<open>e\<close>.
\<close>

datatype exn = TypeError | ValueError | KeyError | NameError | OtherError string

text \<open>
  Arguments that can stand where \<open>source_id\<close> is expected.  A \<open>bool\<close> is an \<open>int\<close> in Python
  (\<open>isinstance(True, int)\<close> holds) but is written differently by \<open>str\<close>, so it has a
  constructor of its own.  \<open>AObj r rs\<close> is an instance of a user class (not a tuple) whose
  \<open>__str__\<close> may keep state: its first call has the outcome \<open>r\<close>, the following calls the
  outcomes \<open>rs\<close> in order, and the last outcome is repeated from then on.  An outcome
  \<open>Inr s\<close> returns the string \<open>s\<close>, an outcome \<open>Inl e\<close> raises \<open>e\<close>.
\<close>

datatype pyatom = ANone | ABool bool | AInt int | AStr string
  | AObj "exn + string" "(exn + string) list"


text \<open>Arguments that can stand where \<open>tag_names\<close> is expected: a scalar, a list or a tuple.\<close>

datatype pyval = Atom pyatom | PList "pyatom list" | PTuple "pyatom list"

text \<open>Values of the optional parameters, by their declared types \<open>str\<close>, \<open>int\<close> and \<open>list\<close>.\<close>

datatype optval = VStr string | VInt int | VList "string list"

definition digit_char :: "nat \<Rightarrow> char" where
  "digit_char d = char_of (48 + d)"

fun str_nat :: "nat \<Rightarrow> string" where
  "str_nat n = (if n < 10 then [digit_char n] else str_nat (n div 10) @ [digit_char (n mod 10)])"

declare str_nat.simps [simp del]

text \<open>\<open>str(i)\<close> for a Python int: the decimal digits, with a minus sign when negative.\<close>

definition str_int :: "int \<Rightarrow> string" where
  "str_int i = (if i < 0 then CHR ''-'' # str_nat (nat (- i)) else str_nat (nat i))"




text \<open>
  CPython's limit on the conversion between \<open>int\<close> and \<open>str\<close>, at its default
  (\<open>sys.int_info.default_max_str_digits\<close>), and the number of digits it is compared with,
  the sign not counted.
\<close>

definition int_max_str_digits :: nat where
  "int_max_str_digits = 4300"

definition decimal_digits :: "int \<Rightarrow> nat" where
  "decimal_digits i = length (str_nat (nat \<bar>i\<bar>))"

text \<open>\<open>str(i)\<close> for an int that is not a bool: \<open>ValueError\<close> beyond the limit of digits.\<close>

definition str_of_int :: "int \<Rightarrow> exn + string" where
  "str_of_int i =
     (if int_max_str_digits < decimal_digits i then Inl ValueError else Inr (str_int i))"

text \<open>\<open>str(x)\<close>; for an object, the outcome of this call of its \<open>__str__\<close>.\<close>

fun py_str :: "pyatom \<Rightarrow> exn + string" where
  "py_str ANone = Inr ''None''"
| "py_str (ABool b) = Inr (if b then ''True'' else ''False'')"
| "py_str (AInt i) = str_of_int i"
| "py_str (AStr s) = Inr s"
| "py_str (AObj r rs) = r"

text \<open>The argument after one call of \<open>str\<close> on it: an object has moved on to its next outcome.\<close>

fun after_str :: "pyatom \<Rightarrow> pyatom" where
  "after_str (AObj r []) = AObj r []"
| "after_str (AObj r (r' # rs)) = AObj r' rs"
| "after_str a = a"

text \<open>
  \<open>"<before>%s<after>" % x\<close> for an \<open>x\<close> that is not a tuple: the conversion \<open>%s\<close> applies
  \<open>str\<close> to \<open>x\<close>, so it raises what \<open>str(x)\<close> raises.
\<close>

definition py_percent_s :: "string \<Rightarrow> string \<Rightarrow> pyatom \<Rightarrow> exn + string" where
  "py_percent_s before after x =
     (case py_str x of Inl e \<Rightarrow> Inl e | Inr s \<Rightarrow> Inr (before @ s @ after))"

text \<open>\<open>sep.join(xs)\<close> on a list of strings.\<close>

fun str_join :: "string \<Rightarrow> string list \<Rightarrow> string" where
  "str_join sep [] = []"
| "str_join sep [x] = x"
| "str_join sep (x # y # ys) = x @ sep @ str_join sep (y # ys)"

fun as_str :: "pyatom \<Rightarrow> string option" where
  "as_str (AStr s) = Some s"
| "as_str _ = None"

text \<open>
  \<open>sep.join(v)\<close> on an arbitrary argument.  A list or tuple is joined when every item is a
  \<open>str\<close>, otherwise \<open>TypeError\<close> (sequence item: expected str instance).  A \<open>str\<close> is
  iterable too and is joined character by character.  \<open>None\<close>, an int and a plain object
  are not iterable: \<open>TypeError\<close>.
\<close>

fun py_join :: "string \<Rightarrow> pyval \<Rightarrow> exn + string" where
  "py_join sep (Atom (AStr s)) = Inr (str_join sep (map (\<lambda>c. [c]) s))"
| "py_join sep (Atom _) = Inl TypeError"
| "py_join sep (PList xs) =
     (case those (map as_str xs) of None \<Rightarrow> Inl TypeError | Some ss \<Rightarrow> Inr (str_join sep ss))"
| "py_join sep (PTuple xs) =
     (case those (map as_str xs) of None \<Rightarrow> Inl TypeError | Some ss \<Rightarrow> Inr (str_join sep ss))"

section \<open>The instance, its environment and the inherited helpers\<close>

text \<open>
  An instance of \<open>Tags\<close> (which extends \<open>Sources\<close>): the two result dictionaries set up by the
  constructors and, in \<open>other_attrs\<close>, whatever the base classes keep.
\<close>

record ('j, 'a) instance_state =
  source_stack :: "string \<rightharpoonup> 'j"
  tag_stack :: "string \<rightharpoonup> 'j"
  other_attrs :: 'a

text \<open>
  The instance together with what a call does to the outside: the lines printed and the
  URLs handed to \<open>_fetch_data\<close>, oldest first.
\<close>

record ('j, 'a) world =
  self :: "('j, 'a) instance_state"
  stdout :: "string list"
  requests :: "string list"

text \<open>
  The methods \<open>_add_optional_params\<close>, \<open>_get_realtime_date\<close> and \<open>_fetch_data\<close> are
  inherited from a base class and are parameters of the model.  Each may raise.
\<close>

record 'j helpers =
  add_optional_params :: "string \<Rightarrow> (string \<times> optval option) list \<Rightarrow> exn + string"
  get_realtime_date :: "string option \<Rightarrow> string option \<Rightarrow> exn + string"
  fetch_data :: "string \<Rightarrow> exn + 'j"

type_synonym ('r, 'j, 'a) py = "('j, 'a) world \<Rightarrow> (exn + 'r) \<times> ('j, 'a) world"

definition py_return :: "'r \<Rightarrow> ('r, 'j, 'a) py" where
  "py_return x w = (Inr x, w)"

definition py_lift :: "exn + 'r \<Rightarrow> ('r, 'j, 'a) py" where
  "py_lift r w = (r, w)"

definition py_bind :: "('r, 'j, 'a) py \<Rightarrow> ('r \<Rightarrow> ('q, 'j, 'a) py) \<Rightarrow> ('q, 'j, 'a) py" where
  "py_bind m f w = (case m w of (Inl e, w1) \<Rightarrow> (Inl e, w1) | (Inr x, w1) \<Rightarrow> f x w1)"

text \<open>\<open>try: body except TypeError: handler\<close>; any other exception passes through.\<close>

definition py_except_TypeError :: "('r, 'j, 'a) py \<Rightarrow> ('r, 'j, 'a) py \<Rightarrow> ('r, 'j, 'a) py" where
  "py_except_TypeError body handler w =
     (case body w of (Inl TypeError, w1) \<Rightarrow> handler w1 | res \<Rightarrow> res)"

definition py_print :: "string \<Rightarrow> (unit, 'j, 'a) py" where
  "py_print msg w = (Inr (), w\<lparr>stdout := stdout w @ [msg]\<rparr>)"

text \<open>\<open>self._fetch_data(url)\<close>: the request is made, then its result or exception comes back.\<close>

definition call_fetch_data :: "'j helpers \<Rightarrow> string \<Rightarrow> ('j, 'j, 'a) py" where
  "call_fetch_data H url w = (fetch_data H url, w\<lparr>requests := requests w @ [url]\<rparr>)"

datatype stack_id = Source_stack | Tag_stack

fun stack_of :: "stack_id \<Rightarrow> ('j, 'a) instance_state \<Rightarrow> (string \<rightharpoonup> 'j)" where
  "stack_of Source_stack s = source_stack s"
| "stack_of Tag_stack s = tag_stack s"

text \<open>\<open>self.<stack>[key] = v\<close>.\<close>

fun stack_assign :: "stack_id \<Rightarrow> string \<Rightarrow> 'j \<Rightarrow> (unit, 'j, 'a) py" where
  "stack_assign Source_stack key v w =
     (Inr (), w\<lparr>self := (self w)\<lparr>source_stack := (source_stack (self w))(key \<mapsto> v)\<rparr>\<rparr>)"
| "stack_assign Tag_stack key v w =
     (Inr (), w\<lparr>self := (self w)\<lparr>tag_stack := (tag_stack (self w))(key \<mapsto> v)\<rparr>\<rparr>)"

text \<open>\<open>self.<stack>[key]\<close>, which raises \<open>KeyError\<close> on a missing key.\<close>

definition stack_lookup :: "stack_id \<Rightarrow> string \<Rightarrow> ('j, 'j, 'a) py" where
  "stack_lookup st key w =
     (case stack_of st (self w) key of None \<Rightarrow> (Inl KeyError, w) | Some v \<Rightarrow> (Inr v, w))"

text \<open>
  The two closing lines of every method:
  \<open>self.<stack>[key] = self._fetch_data(url); return self.<stack>[key]\<close>.
  The right-hand side is evaluated before the assignment.
\<close>

definition fetch_store_return :: "stack_id \<Rightarrow> string \<Rightarrow> 'j helpers \<Rightarrow> string \<Rightarrow> ('j, 'j, 'a) py" where
  "fetch_store_return st key H url =
     py_bind (call_fetch_data H url) (\<lambda>v.
     py_bind (stack_assign st key v) (\<lambda>_.
     stack_lookup st key))"

section \<open>new_fred/sources.py\<close>

text \<open>Lines 69-78 of \<open>Sources.get_all_sources\<close>: the URL.  The dictionary literal keeps its
  insertion order.\<close>

definition get_all_sources_url ::
  "string option \<Rightarrow> string option \<Rightarrow> int option \<Rightarrow> int option \<Rightarrow> string option \<Rightarrow> string option
   \<Rightarrow> 'j helpers \<Rightarrow> (string, 'j, 'a) py" where
  "get_all_sources_url realtime_start realtime_end limit offset order_by sort_order H =
     py_lift (add_optional_params H ''sources?''
       [(''&realtime_start='', map_option VStr realtime_start),
        (''&realtime_end='', map_option VStr realtime_end),
        (''&limit='', map_option VInt limit),
        (''&offset='', map_option VInt offset),
        (''&order_by='', map_option VStr order_by),
        (''&sort_order='', map_option VStr sort_order)])"

definition get_all_sources ::
  "string option \<Rightarrow> string option \<Rightarrow> int option \<Rightarrow> int option \<Rightarrow> string option \<Rightarrow> string option
   \<Rightarrow> 'j helpers \<Rightarrow> ('j, 'j, 'a) py" where
  "get_all_sources realtime_start realtime_end limit offset order_by sort_order H =
     py_bind (get_all_sources_url realtime_start realtime_end limit offset order_by sort_order H)
       (fetch_store_return Source_stack ''get_all_sources'' H)"

text \<open>
  The block shared by \<open>get_a_source\<close> (lines 117-121) and \<open>get_releases_for_a_source\<close>
  (lines 185-189):
  \<open>try: url_prefix += str(source_id)\<close>
  \<open>except TypeError: print("Unable to cast source_id %s to str" % source_id)\<close>.
  It yields the value of \<open>url_prefix\<close> afterwards.  The handler formats \<open>source_id\<close> after
  the \<open>str\<close> of the \<open>try\<close> block has been applied to it.
\<close>

definition append_source_id :: "string \<Rightarrow> pyatom \<Rightarrow> (string, 'j, 'a) py" where
  "append_source_id url_prefix source_id =
     py_except_TypeError
       (py_bind (py_lift (py_str source_id)) (\<lambda>s. py_return (url_prefix @ s)))
       (py_bind (py_lift (py_percent_s ''Unable to cast source_id '' '' to str''
                            (after_str source_id))) (\<lambda>msg.
        py_bind (py_print msg) (\<lambda>_.
        py_return url_prefix)))"

definition get_a_source_url ::
  "pyatom \<Rightarrow> string option \<Rightarrow> string option \<Rightarrow> 'j helpers \<Rightarrow> (string, 'j, 'a) py" where
  "get_a_source_url source_id realtime_start realtime_end H =
     py_bind (append_source_id ''source?source_id='' source_id) (\<lambda>url_prefix.
     py_lift (add_optional_params H url_prefix
       [(''&realtime_start='', map_option VStr realtime_start),
        (''&realtime_end='', map_option VStr realtime_end)]))"

definition get_a_source ::
  "pyatom \<Rightarrow> string option \<Rightarrow> string option \<Rightarrow> 'j helpers \<Rightarrow> ('j, 'j, 'a) py" where
  "get_a_source source_id realtime_start realtime_end H =
     py_bind (get_a_source_url source_id realtime_start realtime_end H)
       (fetch_store_return Source_stack ''get_a_source'' H)"

definition get_releases_for_a_source_url ::
  "pyatom \<Rightarrow> string option \<Rightarrow> string option \<Rightarrow> int option \<Rightarrow> int option \<Rightarrow> string option
   \<Rightarrow> string option \<Rightarrow> 'j helpers \<Rightarrow> (string, 'j, 'a) py" where
  "get_releases_for_a_source_url source_id realtime_start realtime_end limit offset order_by sort_order H =
     py_bind (append_source_id ''source/releases?source_id='' source_id) (\<lambda>url_prefix.
     py_lift (add_optional_params H url_prefix
       [(''&realtime_start='', map_option VStr realtime_start),
        (''&realtime_end='', map_option VStr realtime_end),
        (''&limit='', map_option VInt limit),
        (''&offset='', map_option VInt offset),
        (''&order_by='', map_option VStr order_by),
        (''&sort_order='', map_option VStr sort_order)]))"

definition get_releases_for_a_source ::
  "pyatom \<Rightarrow> string option \<Rightarrow> string option \<Rightarrow> int option \<Rightarrow> int option \<Rightarrow> string option
   \<Rightarrow> string option \<Rightarrow> 'j helpers \<Rightarrow> ('j, 'j, 'a) py" where
  "get_releases_for_a_source source_id realtime_start realtime_end limit offset order_by sort_order H =
     py_bind (get_releases_for_a_source_url source_id realtime_start realtime_end limit offset
                order_by sort_order H)
       (fetch_store_return Source_stack ''get_releases_for_a_source'' H)"

section \<open>new_fred/tags.py\<close>

definition get_tags_url ::
  "string option \<Rightarrow> string option \<Rightarrow> string list option \<Rightarrow> string option \<Rightarrow> string option
   \<Rightarrow> int option \<Rightarrow> int option \<Rightarrow> string option \<Rightarrow> string option
   \<Rightarrow> 'j helpers \<Rightarrow> (string, 'j, 'a) py" where
  "get_tags_url realtime_start realtime_end tag_names tag_group_id search_text limit offset
     order_by sort_order H =
     py_lift (add_optional_params H ''tags?''
       [(''&realtime_start='', map_option VStr realtime_start),
        (''&realtime_end='', map_option VStr realtime_end),
        (''&tag_names='', map_option VList tag_names),
        (''&tag_group_id='', map_option VStr tag_group_id),
        (''&search_text='', map_option VStr search_text),
        (''&limit='', map_option VInt limit),
        (''&offset='', map_option VInt offset),
        (''&order_by='', map_option VStr order_by),
        (''&sort_order='', map_option VStr sort_order)])"

definition get_tags ::
  "string option \<Rightarrow> string option \<Rightarrow> string list option \<Rightarrow> string option \<Rightarrow> string option
   \<Rightarrow> int option \<Rightarrow> int option \<Rightarrow> string option \<Rightarrow> string option
   \<Rightarrow> 'j helpers \<Rightarrow> ('j, 'j, 'a) py" where
  "get_tags realtime_start realtime_end tag_names tag_group_id search_text limit offset
     order_by sort_order H =
     py_bind (get_tags_url realtime_start realtime_end tag_names tag_group_id search_text limit
                offset order_by sort_order H)
       (fetch_store_return Tag_stack ''get_tags'' H)"

text \<open>
  The block shared by \<open>get_related_tags_for_a_tag\<close> (lines 174-178) and
  \<open>get_series_matching_tags\<close> (lines 244-248):
  \<open>try: url_prefix += ";".join(tag_names)\<close>
  \<open>except TypeError: print("tag_names must be list or tuple")\<close>.
\<close>

definition append_tag_names :: "string \<Rightarrow> pyval \<Rightarrow> (string, 'j, 'a) py" where
  "append_tag_names url_prefix tag_names =
     py_except_TypeError
       (py_bind (py_lift (py_join '';'' tag_names)) (\<lambda>s. py_return (url_prefix @ s)))
       (py_bind (py_print ''tag_names must be list or tuple'') (\<lambda>_.
        py_return url_prefix))"

definition get_related_tags_for_a_tag_url ::
  "pyval \<Rightarrow> string option \<Rightarrow> string option \<Rightarrow> string list option \<Rightarrow> string option
   \<Rightarrow> string option \<Rightarrow> int option \<Rightarrow> int option \<Rightarrow> string option \<Rightarrow> string option
   \<Rightarrow> 'j helpers \<Rightarrow> (string, 'j, 'a) py" where
  "get_related_tags_for_a_tag_url tag_names realtime_start realtime_end exclude_tag_names
     tag_group_id search_text limit offset order_by sort_order H =
     py_bind (append_tag_names ''related_tags?tag_names='' tag_names) (\<lambda>url_prefix.
     py_lift (add_optional_params H url_prefix
       [(''&realtime_start='', map_option VStr realtime_start),
        (''&realtime_end='', map_option VStr realtime_end),
        (''&exclude_tag_names='', map_option VList exclude_tag_names),
        (''&tag_group_id='', map_option VStr tag_group_id),
        (''&search_text='', map_option VStr search_text),
        (''&limit='', map_option VInt limit),
        (''&offset='', map_option VInt offset),
        (''&order_by='', map_option VStr order_by),
        (''&sort_order='', map_option VStr sort_order)]))"

definition get_related_tags_for_a_tag ::
  "pyval \<Rightarrow> string option \<Rightarrow> string option \<Rightarrow> string list option \<Rightarrow> string option
   \<Rightarrow> string option \<Rightarrow> int option \<Rightarrow> int option \<Rightarrow> string option \<Rightarrow> string option
   \<Rightarrow> 'j helpers \<Rightarrow> ('j, 'j, 'a) py" where
  "get_related_tags_for_a_tag tag_names realtime_start realtime_end exclude_tag_names
     tag_group_id search_text limit offset order_by sort_order H =
     py_bind (get_related_tags_for_a_tag_url tag_names realtime_start realtime_end
                exclude_tag_names tag_group_id search_text limit offset order_by sort_order H)
       (fetch_store_return Tag_stack ''get_related_tags_for_a_tag'' H)"

text \<open>
  A function body as a sequence of statements: a statement either returns a value, which
  ends the call, or hands over to the statements after it.
\<close>

datatype 'r flow = Returns 'r | Continues

definition py_then :: "('r flow, 'j, 'a) py \<Rightarrow> ('r, 'j, 'a) py \<Rightarrow> ('r, 'j, 'a) py" where
  "py_then stmts rest w =
     (case stmts w of
        (Inl e, w1) \<Rightarrow> (Inl e, w1)
      | (Inr (Returns r), w1) \<Rightarrow> (Inr r, w1)
      | (Inr Continues, w1) \<Rightarrow> rest w1)"

text \<open>Lines 244-253 of \<open>Tags.get_series_matching_tags\<close>: the URL that line 254 fetches.\<close>

definition get_series_matching_tags_url ::
  "pyval \<Rightarrow> string option \<Rightarrow> string option \<Rightarrow> 'j helpers \<Rightarrow> (string, 'j, 'a) py" where
  "get_series_matching_tags_url tag_names realtime_start realtime_end H =
     py_bind (append_tag_names ''tags/series?tag_names='' tag_names) (\<lambda>url_prefix.
     py_bind (py_lift (get_realtime_date H realtime_start realtime_end)) (\<lambda>realtime_period.
     py_return (url_prefix @ realtime_period)))"

text \<open>
  Lines 256-267, written after the \<open>return\<close> of line 255.  Were they run, the dictionary
  display would evaluate its values in order and stop at \<open>tag_group_id\<close>, a name that is
  neither a parameter nor a global of the module: \<open>NameError\<close>.
\<close>

definition get_series_matching_tags_tail ::
  "string list option \<Rightarrow> string option \<Rightarrow> string option \<Rightarrow> int option \<Rightarrow> int option
   \<Rightarrow> string option \<Rightarrow> string option \<Rightarrow> 'j helpers \<Rightarrow> ('j, 'j, 'a) py" where
  "get_series_matching_tags_tail exclude_tag_names realtime_start realtime_end limit offset
     order_by sort_order H = py_lift (Inl NameError)"

definition get_series_matching_tags ::
  "pyval \<Rightarrow> string list option \<Rightarrow> string option \<Rightarrow> string option \<Rightarrow> int option \<Rightarrow> int option
   \<Rightarrow> string option \<Rightarrow> string option \<Rightarrow> 'j helpers \<Rightarrow> ('j, 'j, 'a) py" where
  "get_series_matching_tags tag_names exclude_tag_names realtime_start realtime_end limit offset
     order_by sort_order H =
     py_then
       (py_bind (get_series_matching_tags_url tag_names realtime_start realtime_end H) (\<lambda>url.
        py_bind (fetch_store_return Tag_stack ''get_series_matching_tags'' H url) (\<lambda>r.
        py_return (Returns r))))
       (get_series_matching_tags_tail exclude_tag_names realtime_start realtime_end limit offset
          order_by sort_order H)"

section \<open>Calls of the public methods\<close>

datatype method_call =
    Get_all_sources "string option" "string option" "int option" "int option"
      "string option" "string option"
  | Get_a_source pyatom "string option" "string option"
  | Get_releases_for_a_source pyatom "string option" "string option" "int option" "int option"
      "string option" "string option"
  | Get_tags "string option" "string option" "string list option" "string option" "string option"
      "int option" "int option" "string option" "string option"
  | Get_related_tags_for_a_tag pyval "string option" "string option" "string list option"
      "string option" "string option" "int option" "int option" "string option" "string option"
  | Get_series_matching_tags pyval "string list option" "string option" "string option"
      "int option" "int option" "string option" "string option"

fun invoke :: "method_call \<Rightarrow> 'j helpers \<Rightarrow> ('j, 'j, 'a) py" where
  "invoke (Get_all_sources rs re lim off ob so) H = get_all_sources rs re lim off ob so H"
| "invoke (Get_a_source sid rs re) H = get_a_source sid rs re H"
| "invoke (Get_releases_for_a_source sid rs re lim off ob so) H =
     get_releases_for_a_source sid rs re lim off ob so H"
| "invoke (Get_tags rs re tn tg st lim off ob so) H = get_tags rs re tn tg st lim off ob so H"
| "invoke (Get_related_tags_for_a_tag tn rs re ex tg st lim off ob so) H =
     get_related_tags_for_a_tag tn rs re ex tg st lim off ob so H"
| "invoke (Get_series_matching_tags tn ex rs re lim off ob so) H =
     get_series_matching_tags tn ex rs re lim off ob so H"

text \<open>The URL a call builds before it fetches.\<close>

fun call_url :: "method_call \<Rightarrow> 'j helpers \<Rightarrow> (string, 'j, 'a) py" where
  "call_url (Get_all_sources rs re lim off ob so) H = get_all_sources_url rs re lim off ob so H"
| "call_url (Get_a_source sid rs re) H = get_a_source_url sid rs re H"
| "call_url (Get_releases_for_a_source sid rs re lim off ob so) H =
     get_releases_for_a_source_url sid rs re lim off ob so H"
| "call_url (Get_tags rs re tn tg st lim off ob so) H =
     get_tags_url rs re tn tg st lim off ob so H"
| "call_url (Get_related_tags_for_a_tag tn rs re ex tg st lim off ob so) H =
     get_related_tags_for_a_tag_url tn rs re ex tg st lim off ob so H"
| "call_url (Get_series_matching_tags tn ex rs re lim off ob so) H =
     get_series_matching_tags_url tn rs re H"

text \<open>The key a method stores its result under: its own name.\<close>

fun method_name :: "method_call \<Rightarrow> string" where
  "method_name (Get_all_sources rs re lim off ob so) = ''get_all_sources''"
| "method_name (Get_a_source sid rs re) = ''get_a_source''"
| "method_name (Get_releases_for_a_source sid rs re lim off ob so) = ''get_releases_for_a_source''"
| "method_name (Get_tags rs re tn tg st lim off ob so) = ''get_tags''"
| "method_name (Get_related_tags_for_a_tag tn rs re ex tg st lim off ob so) =
     ''get_related_tags_for_a_tag''"
| "method_name (Get_series_matching_tags tn ex rs re lim off ob so) = ''get_series_matching_tags''"

text \<open>The dictionary a method stores into: \<open>source_stack\<close> in Sources, \<open>tag_stack\<close> in Tags.\<close>

fun method_stack :: "method_call \<Rightarrow> stack_id" where
  "method_stack (Get_all_sources rs re lim off ob so) = Source_stack"
| "method_stack (Get_a_source sid rs re) = Source_stack"
| "method_stack (Get_releases_for_a_source sid rs re lim off ob so) = Source_stack"
| "method_stack (Get_tags rs re tn tg st lim off ob so) = Tag_stack"
| "method_stack (Get_related_tags_for_a_tag tn rs re ex tg st lim off ob so) = Tag_stack"
| "method_stack (Get_series_matching_tags tn ex rs re lim off ob so) = Tag_stack"

section \<open>The inherited helpers as the specification describes them\<close>

text \<open>
  Modelled from the spec: how \<open>_add_optional_params\<close>, whose definition is in a base class
  outside the two files, writes the value of a set parameter.  The specification has set
  parameters included "verbatim" and "list-valued parameters are joined with a fixed
  separator"; the separator is the \<open>;\<close> the two files join \<open>tag_names\<close> with.
\<close>

fun render :: "optval \<Rightarrow> string" where
  "render (VStr s) = s"
| "render (VInt i) = str_int i"
| "render (VList xs) = str_join '';'' xs"

text \<open>
  Modelled from the spec: \<open>_add_optional_params\<close>, whose definition is in a base class
  outside the two files.  The specification describes "a flat mapping from parameter name
  to optional value, filtered to present entries and concatenated into a query string",
  where a method "omits unset parameters from the constructed URL and includes set ones
  verbatim".  The loop walks the dictionary in order and appends key and value of each
  entry that is not \<open>None\<close>.
\<close>

fun add_optional_params_spec :: "string \<Rightarrow> (string \<times> optval option) list \<Rightarrow> string" where
  "add_optional_params_spec url [] = url"
| "add_optional_params_spec url ((k, None) # kvs) = add_optional_params_spec url kvs"
| "add_optional_params_spec url ((k, Some v) # kvs) =
     add_optional_params_spec (url @ k @ render v) kvs"

text \<open>
  Modelled from the spec: \<open>_get_realtime_date\<close>, whose definition is in a base class outside
  the two files.  The specification speaks of "a default realtime-date window"; the
  docstrings of the two files say of each bound "If None, default realtime_start is used"
  and "If None, default realtime_end is used".  The window is written with the two query
  keys the methods use for these bounds; \<open>default_start\<close> and \<open>default_end\<close> are the
  defaults of the instance.
\<close>

definition get_realtime_date_spec ::
  "string \<Rightarrow> string \<Rightarrow> string option \<Rightarrow> string option \<Rightarrow> string" where
  "get_realtime_date_spec default_start default_end realtime_start realtime_end =
     ''&realtime_start='' @ (case realtime_start of None \<Rightarrow> default_start | Some s \<Rightarrow> s) @
     ''&realtime_end='' @ (case realtime_end of None \<Rightarrow> default_end | Some e \<Rightarrow> e)"

text \<open>
  Modelled from the spec: the inherited helpers of an instance whose default window is
  \<open>default_start\<close> to \<open>default_end\<close>; neither URL helper raises.  \<open>_fetch_data\<close> stays a
  parameter: it is the network.
\<close>

definition spec_helpers :: "string \<Rightarrow> string \<Rightarrow> (string \<Rightarrow> exn + 'j) \<Rightarrow> 'j helpers" where
  "spec_helpers default_start default_end fetch =
     \<lparr>add_optional_params = (\<lambda>url args. Inr (add_optional_params_spec url args)),
      get_realtime_date = (\<lambda>rs re. Inr (get_realtime_date_spec default_start default_end rs re)),
      fetch_data = fetch\<rparr>"

text \<open>
  The query fragment of one optional parameter, in the words of the specification: nothing
  for an unset parameter, the key followed by the value for a set one.
\<close>

definition frag :: "string \<Rightarrow> optval option \<Rightarrow> string" where
  "frag k v = (case v of None \<Rightarrow> [] | Some x \<Rightarrow> k @ render x)"

section \<open>A fresh instance\<close>

text \<open>
  \<open>Sources.__init__\<close> and \<open>Tags.__init__\<close>: after the constructor of the base class, each
  sets its result dictionary to \<open>dict()\<close>.
\<close>

definition init_instance :: "'a \<Rightarrow> ('j, 'a) instance_state" where
  "init_instance attrs = \<lparr>source_stack = Map.empty, tag_stack = Map.empty, other_attrs = attrs\<rparr>"

definition start_world :: "'a \<Rightarrow> ('j, 'a) world" where
  "start_world attrs = \<lparr>self = init_instance attrs, stdout = [], requests = []\<rparr>"

text \<open>A fetch that answers every URL with the URL itself, and the helpers built on it.\<close>

definition echo_helpers :: "string helpers" where
  "echo_helpers = spec_helpers ''1776-07-04'' ''9999-12-31'' (\<lambda>url. Inr url)"

text \<open>A fetch that fails on every URL.\<close>

definition failing_helpers :: "string helpers" where
  "failing_helpers = spec_helpers ''1776-07-04'' ''9999-12-31'' (\<lambda>url. Inl (OtherError ''HTTP 500''))"

section \<open>The decimal rendering can be read back\<close>
















lemma str_of_int_7: "str_of_int 7 = Inr ''7''"
  by code_simp

lemma str_int_5: "str_int 5 = ''5''"
  by code_simp


section \<open>What the shared pieces do\<close>

lemmas py_defs = py_bind_def py_return_def py_lift_def py_except_TypeError_def py_print_def
  call_fetch_data_def stack_lookup_def py_then_def

lemmas method_defs = get_all_sources_def get_all_sources_url_def get_a_source_def
  get_a_source_url_def get_releases_for_a_source_def get_releases_for_a_source_url_def
  get_tags_def get_tags_url_def get_related_tags_for_a_tag_def get_related_tags_for_a_tag_url_def
  get_series_matching_tags_def get_series_matching_tags_url_def get_series_matching_tags_tail_def
  append_source_id_def append_tag_names_def py_percent_s_def fetch_store_return_def

lemmas concrete_defs = echo_helpers_def spec_helpers_def get_realtime_date_spec_def
  start_world_def init_instance_def

lemma fetch_store_return_raises:
  "fetch_data H u = Inl e \<Longrightarrow>
   fetch_store_return st k H u w = (Inl e, w\<lparr>requests := requests w @ [u]\<rparr>)"
  by (simp add: fetch_store_return_def py_defs)

lemma fetch_store_return_returns:
  assumes "fetch_store_return st k H u w1 = (Inr v, w')"
  shows "fetch_data H u = Inr v"
    and "stack_of st (self w') k = Some v"
    and "\<And>k'. k' \<noteq> k \<Longrightarrow> stack_of st (self w') k' = stack_of st (self w1) k'"
    and "\<And>st'. st' \<noteq> st \<Longrightarrow> stack_of st' (self w') = stack_of st' (self w1)"
    and "other_attrs (self w') = other_attrs (self w1)"
    and "requests w' = requests w1 @ [u]"
    and "stdout w' = stdout w1"
proof -
  show "fetch_data H u = Inr v" using assms
    by (cases st; cases "fetch_data H u") (auto simp: fetch_store_return_def py_defs)
  show "stack_of st (self w') k = Some v" using assms
    by (cases st; cases "fetch_data H u") (auto simp: fetch_store_return_def py_defs)
  show "\<And>k'. k' \<noteq> k \<Longrightarrow> stack_of st (self w') k' = stack_of st (self w1) k'" using assms
    by (cases st; cases "fetch_data H u") (auto simp: fetch_store_return_def py_defs)
  show "\<And>st'. st' \<noteq> st \<Longrightarrow> stack_of st' (self w') = stack_of st' (self w1)"
  proof -
    fix st' :: stack_id assume "st' \<noteq> st"
    then show "stack_of st' (self w') = stack_of st' (self w1)" using assms
      by (cases st; cases st'; cases "fetch_data H u") (auto simp: fetch_store_return_def py_defs)
  qed
  show "other_attrs (self w') = other_attrs (self w1)" using assms
    by (cases st; cases "fetch_data H u") (auto simp: fetch_store_return_def py_defs)
  show "requests w' = requests w1 @ [u]" using assms
    by (cases st; cases "fetch_data H u") (auto simp: fetch_store_return_def py_defs)
  show "stdout w' = stdout w1" using assms
    by (cases st; cases "fetch_data H u") (auto simp: fetch_store_return_def py_defs)
qed

lemma append_source_id_frame:
  "append_source_id p sid w = (r, w1) \<Longrightarrow> self w1 = self w \<and> requests w1 = requests w"
  by (cases "py_str sid"; cases "py_str (after_str sid)")
     (auto simp: append_source_id_def py_percent_s_def py_defs
           split: sum.splits exn.splits prod.splits)

lemma append_tag_names_frame:
  "append_tag_names p tn w = (r, w1) \<Longrightarrow> self w1 = self w \<and> requests w1 = requests w"
  by (cases "py_join '';'' tn")
     (auto simp: append_tag_names_def py_defs split: sum.splits exn.splits prod.splits)

lemma call_url_frame:
  assumes a: "call_url c H w = (r, w1)"
  shows "self w1 = self w \<and> requests w1 = requests w"
proof (cases c)
  case (Get_all_sources rs re lim off ob so)
  with a show ?thesis by (auto simp: get_all_sources_url_def py_lift_def)
next
  case (Get_a_source sid rs re)
  with a show ?thesis
    using append_source_id_frame[of "''source?source_id=''" sid w]
    by (auto simp: get_a_source_url_def py_bind_def py_lift_def split: sum.splits prod.splits)
next
  case (Get_releases_for_a_source sid rs re lim off ob so)
  with a show ?thesis
    using append_source_id_frame[of "''source/releases?source_id=''" sid w]
    by (auto simp: get_releases_for_a_source_url_def py_bind_def py_lift_def
             split: sum.splits prod.splits)
next
  case (Get_tags rs re tn tg st lim off ob so)
  with a show ?thesis by (auto simp: get_tags_url_def py_lift_def)
next
  case (Get_related_tags_for_a_tag tn rs re ex tg st lim off ob so)
  with a show ?thesis
    using append_tag_names_frame[of "''related_tags?tag_names=''" tn w]
    by (auto simp: get_related_tags_for_a_tag_url_def py_bind_def py_lift_def
             split: sum.splits prod.splits)
next
  case (Get_series_matching_tags tn ex rs re lim off ob so)
  with a show ?thesis
    using append_tag_names_frame[of "''tags/series?tag_names=''" tn w]
    by (auto simp: get_series_matching_tags_url_def py_bind_def py_lift_def py_return_def
             split: sum.splits prod.splits)
qed

text \<open>Every method is its URL stage followed by the two closing lines.\<close>

lemma invoke_pipeline:
  "invoke c H = py_bind (call_url c H) (fetch_store_return (method_stack c) (method_name c) H)"
proof (cases c)
  case (Get_series_matching_tags tn ex rs re lim off ob so)
  show ?thesis
    unfolding Get_series_matching_tags
    by (rule ext) (auto simp: get_series_matching_tags_def py_then_def py_bind_def py_return_def
          split: sum.splits prod.splits)
qed (simp_all add: get_all_sources_def get_a_source_def get_releases_for_a_source_def
       get_tags_def get_related_tags_for_a_tag_def)

lemma invoke_returns:
  assumes "invoke c H w = (Inr v, w')"
  obtains u w1 where "call_url c H w = (Inr u, w1)"
    and "fetch_store_return (method_stack c) (method_name c) H u w1 = (Inr v, w')"
  using assms unfolding invoke_pipeline
  by (auto simp: py_bind_def split: sum.splits prod.splits)

lemma invoke_after_url:
  assumes url: "call_url c H w = (Inr u, w1)"
  shows "fst (invoke c H w) = fetch_data H u"
    and "requests (snd (invoke c H w)) = requests w @ [u]"
    and "stdout (snd (invoke c H w)) = stdout w1"
    and "fetch_data H u = Inl e \<Longrightarrow> self (snd (invoke c H w)) = self w"
proof -
  have fr: "self w1 = self w" "requests w1 = requests w"
    using call_url_frame[OF url] by simp_all
  have inv: "invoke c H w = fetch_store_return (method_stack c) (method_name c) H u w1"
    by (simp add: invoke_pipeline py_bind_def url)
  show "fst (invoke c H w) = fetch_data H u"
    unfolding inv
    by (cases "method_stack c"; cases "fetch_data H u") (simp_all add: fetch_store_return_def py_defs)
  show "requests (snd (invoke c H w)) = requests w @ [u]"
    unfolding inv using fr
    by (cases "method_stack c"; cases "fetch_data H u") (simp_all add: fetch_store_return_def py_defs)
  show "stdout (snd (invoke c H w)) = stdout w1"
    unfolding inv
    by (cases "method_stack c"; cases "fetch_data H u") (simp_all add: fetch_store_return_def py_defs)
  show "fetch_data H u = Inl e \<Longrightarrow> self (snd (invoke c H w)) = self w"
    unfolding inv using fr by (simp add: fetch_store_return_raises)
qed

lemma py_join_raises_TypeError: "py_join sep v = Inl e \<Longrightarrow> e = TypeError"
  by (cases "(sep, v)" rule: py_join.cases) (auto split: option.splits)

lemma append_tag_names_result:
  "append_tag_names p tn w =
     (case py_join '';'' tn of
        Inr s \<Rightarrow> (Inr (p @ s), w)
      | Inl e \<Rightarrow> (Inr p, w\<lparr>stdout := stdout w @ [''tag_names must be list or tuple'']\<rparr>))"
proof (cases "py_join '';'' tn")
  case (Inl e)
  then have "e = TypeError" by (rule py_join_raises_TypeError)
  with Inl show ?thesis by (simp add: append_tag_names_def py_defs)
next
  case (Inr s)
  then show ?thesis by (simp add: append_tag_names_def py_defs)
qed

lemma series_as_pipeline:
  "get_series_matching_tags tn ex rs re lim off ob so H =
     py_bind (get_series_matching_tags_url tn rs re H)
       (fetch_store_return Tag_stack ''get_series_matching_tags'' H)"
  using invoke_pipeline[of "Get_series_matching_tags tn ex rs re lim off ob so" H] by simp

lemma fetch_store_return_no_new_error:
  "fst (fetch_store_return st k H u w) = fetch_data H u"
  by (cases st; cases "fetch_data H u") (simp_all add: fetch_store_return_def py_defs)


lemma fetch_store_return_stack:
  assumes "fetch_store_return st k H u w1 = (Inr v, w')"
  shows "stack_of st (self w') = (stack_of st (self w1))(k \<mapsto> v)"
  using assms
  by (cases st; cases "fetch_data H u") (auto simp: fetch_store_return_def py_defs)

lemma series_url_result:
  "get_series_matching_tags_url tn rs re H w =
     (case get_realtime_date H rs re of
        Inl e \<Rightarrow> Inl e
      | Inr period \<Rightarrow>
          Inr (''tags/series?tag_names='' @
               (case py_join '';'' tn of Inl e \<Rightarrow> [] | Inr joined \<Rightarrow> joined) @ period),
      case py_join '';'' tn of
        Inl e \<Rightarrow> w\<lparr>stdout := stdout w @ [''tag_names must be list or tuple'']\<rparr>
      | Inr joined \<Rightarrow> w)"
  by (cases "py_join '';'' tn"; cases "get_realtime_date H rs re")
     (simp_all add: get_series_matching_tags_url_def append_tag_names_result py_bind_def
        py_lift_def py_return_def)

lemma those_as_str: "those (map as_str (map AStr names)) = Some names"
  by (induction names) simp_all

lemma py_join_strings:
  "py_join sep (PList (map AStr names)) = Inr (str_join sep names)"
  "py_join sep (PTuple (map AStr names)) = Inr (str_join sep names)"
  using those_as_str[of names] by (simp_all add: comp_def)

lemma add_optional_params_spec_frags:
  "add_optional_params_spec url kvs = url @ concat (map (\<lambda>(k, v). frag k v) kvs)"
  by (induction url kvs rule: add_optional_params_spec.induct) (simp_all add: frag_def)

section \<open>The result dictionary\<close>

text \<open>
  C5.  Whenever a call of a public method returns normally with the value \<open>v\<close>, that value
  is what \<open>_fetch_data\<close> answered in this call: the call has built a URL, made exactly one
  request, on that URL, and the result dictionary of the method (\<open>source_stack\<close> for the
  methods of Sources, \<open>tag_stack\<close> for those of Tags) is afterwards the dictionary of before
  with the method's name mapped to \<open>v\<close>.  So the name maps to exactly the value returned,
  whatever it held before: the last write wins and no earlier result is kept under it.
\<close>

theorem stored_result_is_returned:
  assumes "invoke c H w = (Inr v, w')"
  shows "stack_of (method_stack c) (self w') (method_name c) = Some v
         \<and> (\<exists>u w1. call_url c H w = (Inr u, w1)
               \<and> fetch_data H u = Inr v
               \<and> requests w' = requests w @ [u]
               \<and> stack_of (method_stack c) (self w')
                   = (stack_of (method_stack c) (self w))(method_name c \<mapsto> v))"
proof -
  from assms obtain u w1 where
    url: "call_url c H w = (Inr u, w1)" and
    fsr: "fetch_store_return (method_stack c) (method_name c) H u w1 = (Inr v, w')"
    by (rule invoke_returns)
  have fr: "self w1 = self w" "requests w1 = requests w"
    using call_url_frame[OF url] by simp_all
  have a: "stack_of (method_stack c) (self w') (method_name c) = Some v"
    using fsr by (rule fetch_store_return_returns(2))
  have b: "fetch_data H u = Inr v"
    using fsr by (rule fetch_store_return_returns(1))
  have c: "requests w' = requests w @ [u]"
    using fetch_store_return_returns(6)[OF fsr] fr by simp
  have d: "stack_of (method_stack c) (self w')
             = (stack_of (method_stack c) (self w))(method_name c \<mapsto> v)"
    using fetch_store_return_stack[OF fsr] fr by simp
  from a url b c d show ?thesis by blast
qed

theorem stored_result_is_returned_witness:
  "fst (invoke (Get_tags None None None None None (Some 5) None None None) echo_helpers
         ((start_world ())\<lparr>self := (init_instance ())\<lparr>tag_stack := [''get_tags'' \<mapsto> ''old'']\<rparr>\<rparr>))
     = Inr ''tags?&limit=5''
   \<and> stack_of Tag_stack
        (self (snd (invoke (Get_tags None None None None None (Some 5) None None None) echo_helpers
           ((start_world ())\<lparr>self := (init_instance ())\<lparr>tag_stack := [''get_tags'' \<mapsto> ''old'']\<rparr>\<rparr>))))
        ''get_tags'' = Some ''tags?&limit=5''
   \<and> fetch_data echo_helpers ''tags?&limit=5'' = Inr ''tags?&limit=5''
   \<and> requests (snd (invoke (Get_tags None None None None None (Some 5) None None None) echo_helpers
           ((start_world ())\<lparr>self := (init_instance ())\<lparr>tag_stack := [''get_tags'' \<mapsto> ''old'']\<rparr>\<rparr>)))
       = [''tags?&limit=5'']"
proof -
  let ?c = "Get_tags None None None None None (Some 5) None None None"
  let ?w = "(start_world ())\<lparr>self := (init_instance ())\<lparr>tag_stack := [''get_tags'' \<mapsto> ''old'']\<rparr>\<rparr>
              :: (string, unit) world"
  have h: "fst (invoke ?c echo_helpers ?w) = Inr ''tags?&limit=5''"
    by (simp add: method_defs py_defs concrete_defs str_int_5)
  then have "invoke ?c echo_helpers ?w = (Inr ''tags?&limit=5'', snd (invoke ?c echo_helpers ?w))"
    by (metis prod.collapse)
  note r = stored_result_is_returned[OF this]
  have u: "call_url ?c echo_helpers ?w = (Inr ''tags?&limit=5'', ?w)"
    by (simp add: method_defs py_defs concrete_defs str_int_5)
  from r obtain u' w1 where
    "call_url ?c echo_helpers ?w = (Inr u', w1)" and
    f: "fetch_data echo_helpers u' = Inr ''tags?&limit=5''" and
    q: "requests (snd (invoke ?c echo_helpers ?w)) = requests ?w @ [u']"
    by blast
  with u have "u' = ''tags?&limit=5''" by simp
  with f q r h show ?thesis by (simp add: concrete_defs)
qed

text \<open>
  C9.  Whenever a call of a public method returns normally, every key of \<open>source_stack\<close> and
  of \<open>tag_stack\<close> other than the method's own name keeps the value it had (or stays absent),
  the dictionary the method does not store into is unchanged as a whole, and no other
  attribute of the instance is modified.
\<close>

theorem other_entries_untouched:
  assumes "invoke c H w = (Inr v, w')"
  shows "(\<forall>k. k \<noteq> method_name c \<longrightarrow>
            source_stack (self w') k = source_stack (self w) k \<and>
            tag_stack (self w') k = tag_stack (self w) k)
         \<and> (\<forall>st. st \<noteq> method_stack c \<longrightarrow> stack_of st (self w') = stack_of st (self w))
         \<and> other_attrs (self w') = other_attrs (self w)"
proof -
  from assms obtain u w1 where
    url: "call_url c H w = (Inr u, w1)" and
    fsr: "fetch_store_return (method_stack c) (method_name c) H u w1 = (Inr v, w')"
    by (rule invoke_returns)
  have same: "self w1 = self w" using call_url_frame[OF url] by simp
  have keys: "\<And>st k. k \<noteq> method_name c \<Longrightarrow> stack_of st (self w') k = stack_of st (self w) k"
  proof -
    fix st :: stack_id and k assume k: "k \<noteq> method_name c"
    show "stack_of st (self w') k = stack_of st (self w) k"
    proof (cases "st = method_stack c")
      case True
      then show ?thesis using fetch_store_return_returns(3)[OF fsr k] same by simp
    next
      case False
      then show ?thesis using fetch_store_return_returns(4)[OF fsr False] same by simp
    qed
  qed
  have a: "\<forall>k. k \<noteq> method_name c \<longrightarrow>
            source_stack (self w') k = source_stack (self w) k \<and>
            tag_stack (self w') k = tag_stack (self w) k"
    using keys[of _ Source_stack] keys[of _ Tag_stack] by simp
  have b: "\<forall>st. st \<noteq> method_stack c \<longrightarrow> stack_of st (self w') = stack_of st (self w)"
    using fetch_store_return_returns(4)[OF fsr] same by simp
  have c: "other_attrs (self w') = other_attrs (self w)"
    using fetch_store_return_returns(5)[OF fsr] same by simp
  from a b c show ?thesis by blast
qed

theorem other_entries_untouched_witness:
  "fst (invoke (Get_a_source (AInt 7) None None) echo_helpers
         ((start_world ())\<lparr>self := (init_instance ())\<lparr>source_stack := [''get_all_sources'' \<mapsto> ''old'']\<rparr>\<rparr>))
     = Inr ''source?source_id=7''
   \<and> source_stack
        (self (snd (invoke (Get_a_source (AInt 7) None None) echo_helpers
           ((start_world ())\<lparr>self := (init_instance ())\<lparr>source_stack := [''get_all_sources'' \<mapsto> ''old'']\<rparr>\<rparr>))))
        ''get_all_sources'' = Some ''old''
   \<and> tag_stack
        (self (snd (invoke (Get_a_source (AInt 7) None None) echo_helpers
           ((start_world ())\<lparr>self := (init_instance ())\<lparr>source_stack := [''get_all_sources'' \<mapsto> ''old'']\<rparr>\<rparr>))))
       = Map.empty"
proof -
  let ?c = "Get_a_source (AInt 7) None None"
  let ?w = "(start_world ())\<lparr>self := (init_instance ())\<lparr>source_stack := [''get_all_sources'' \<mapsto> ''old'']\<rparr>\<rparr>
              :: (string, unit) world"
  have h: "fst (invoke ?c echo_helpers ?w) = Inr ''source?source_id=7''"
    by (simp add: method_defs py_defs concrete_defs str_of_int_7)
  then have "invoke ?c echo_helpers ?w = (Inr ''source?source_id=7'', snd (invoke ?c echo_helpers ?w))"
    by (metis prod.collapse)
  note r = other_entries_untouched[OF this]
  have a: "source_stack (self (snd (invoke ?c echo_helpers ?w))) ''get_all_sources''
          = source_stack (self ?w) ''get_all_sources''"
    using r[THEN conjunct1, THEN spec, of "''get_all_sources''"] by simp
  have b: "stack_of Tag_stack (self (snd (invoke ?c echo_helpers ?w)))
          = stack_of Tag_stack (self ?w)"
    using r[THEN conjunct2, THEN conjunct1, THEN spec, of Tag_stack] by simp
  from h a b show ?thesis by (simp add: concrete_defs)
qed

section \<open>Exceptions of the fetch\<close>

text \<open>
  C6.  When a call of a public method reaches its fetch with the URL \<open>u\<close> and \<open>_fetch_data\<close>
  raises an exception \<open>e\<close> there, the call raises that same \<open>e\<close>, untranslated; exactly one
  request has been made (no retry), and the instance, with both result dictionaries, is
  as it was before the call.
\<close>

theorem fetch_exception_propagates:
  assumes "call_url c H w = (Inr u, w1)" and "fetch_data H u = Inl e"
  shows "fst (invoke c H w) = Inl e
         \<and> self (snd (invoke c H w)) = self w
         \<and> requests (snd (invoke c H w)) = requests w @ [u]"
  using invoke_after_url(1,2)[OF assms(1)] invoke_after_url(4)[OF assms(1) assms(2)] assms(2)
  by simp

theorem fetch_exception_propagates_witness:
  "fst (invoke (Get_all_sources None None (Some 5) None None None) failing_helpers
          ((start_world ())\<lparr>self := (init_instance ())\<lparr>source_stack := [''get_all_sources'' \<mapsto> ''old'']\<rparr>\<rparr>))
     = Inl (OtherError ''HTTP 500'')
   \<and> source_stack (self (snd (invoke (Get_all_sources None None (Some 5) None None None) failing_helpers
          ((start_world ())\<lparr>self := (init_instance ())\<lparr>source_stack := [''get_all_sources'' \<mapsto> ''old'']\<rparr>\<rparr>))))
        ''get_all_sources'' = Some ''old''
   \<and> requests (snd (invoke (Get_all_sources None None (Some 5) None None None) failing_helpers
          ((start_world ())\<lparr>self := (init_instance ())\<lparr>source_stack := [''get_all_sources'' \<mapsto> ''old'']\<rparr>\<rparr>)))
     = [''sources?&limit=5'']"
proof -
  let ?c = "Get_all_sources None None (Some 5) None None None"
  let ?w = "(start_world ())\<lparr>self := (init_instance ())\<lparr>source_stack := [''get_all_sources'' \<mapsto> ''old'']\<rparr>\<rparr>
              :: (string, unit) world"
  have u: "call_url ?c failing_helpers ?w = (Inr ''sources?&limit=5'', ?w)"
    by (simp add: method_defs py_defs failing_helpers_def spec_helpers_def str_int_5)
  have f: "fetch_data failing_helpers ''sources?&limit=5'' = Inl (OtherError ''HTTP 500'')"
    by (simp add: failing_helpers_def spec_helpers_def)
  from fetch_exception_propagates[OF u f] show ?thesis by (simp add: concrete_defs)
qed

section \<open>The parameters \<open>get_series_matching_tags\<close> does not use\<close>

text \<open>
  C8.  Two calls of \<open>get_series_matching_tags\<close> with the same \<open>tag_names\<close>, \<open>realtime_start\<close>
  and \<open>realtime_end\<close> have the same outcome, fetched URL included, whatever the values of
  \<open>exclude_tag_names\<close>, \<open>limit\<close>, \<open>offset\<close>, \<open>order_by\<close> and \<open>sort_order\<close>: the statements after
  the \<open>return\<close> are never run.  In particular the undefined names there raise no
  \<open>NameError\<close>: the call raises one only if an inherited helper does.
\<close>

theorem series_ignores_other_parameters:
  "get_series_matching_tags tn ex rs re lim off ob so H w =
     get_series_matching_tags tn ex' rs re lim' off' ob' so' H w
   \<and> ((\<forall>a b. get_realtime_date H a b \<noteq> Inl NameError) \<and> (\<forall>u. fetch_data H u \<noteq> Inl NameError)
        \<longrightarrow> fst (get_series_matching_tags tn ex rs re lim off ob so H w) \<noteq> Inl NameError)"
proof -
  have a: "get_series_matching_tags tn ex rs re lim off ob so H w =
     get_series_matching_tags tn ex' rs re lim' off' ob' so' H w"
    by (simp add: series_as_pipeline)
  have b: "fst (get_series_matching_tags tn ex rs re lim off ob so H w) \<noteq> Inl NameError"
    if h: "\<forall>a b. get_realtime_date H a b \<noteq> Inl NameError" "\<forall>u. fetch_data H u \<noteq> Inl NameError"
  proof (cases "get_realtime_date H rs re")
    case (Inl e)
    with h(1) have "e \<noteq> NameError" by metis
    with Inl show ?thesis
      by (cases "py_join '';'' tn")
         (simp_all add: series_as_pipeline get_series_matching_tags_url_def append_tag_names_result
            py_bind_def py_lift_def py_return_def)
  next
    case (Inr p)
    show ?thesis using h(2) Inr
      by (cases "py_join '';'' tn")
         (simp_all add: series_as_pipeline get_series_matching_tags_url_def append_tag_names_result
            py_bind_def py_lift_def py_return_def fetch_store_return_no_new_error)
  qed
  from a b show ?thesis by blast
qed

theorem series_ignores_other_parameters_witness:
  "get_series_matching_tags (PList [AStr ''usa'']) (Some [''quarterly'']) None None (Some 5) None
       None None echo_helpers (start_world ())
     = get_series_matching_tags (PList [AStr ''usa'']) None None None None (Some 7) None
       (Some ''desc'') echo_helpers (start_world ())
   \<and> fst (get_series_matching_tags (PList [AStr ''usa'']) (Some [''quarterly'']) None None (Some 5)
            None None None echo_helpers (start_world ())) \<noteq> Inl NameError"
proof -
  have h: "(\<forall>a b. get_realtime_date echo_helpers a b \<noteq> Inl NameError)
           \<and> (\<forall>u. fetch_data echo_helpers u \<noteq> Inl NameError)"
    by (simp add: echo_helpers_def spec_helpers_def)
  from series_ignores_other_parameters[of "PList [AStr ''usa'']" "Some [''quarterly'']" None None
         "Some 5" None None None echo_helpers "start_world ()" None None "Some 7" None "Some ''desc''"] h
  show ?thesis by blast
qed

section \<open>The required parameter in the URL prefix\<close>




text \<open>
  C3.  When \<open>tag_names\<close> is a list (or tuple) of strings, \<open>get_related_tags_for_a_tag\<close> and
  \<open>get_series_matching_tags\<close> put its elements into the URL in order, joined by the one
  separator \<open>;\<close>, right after the fixed prefix: the first method hands that prefix to
  \<open>_add_optional_params\<close> (which, as the specification describes it, only appends to it),
  the second appends the realtime period to it.
\<close>

theorem tag_names_joined_with_semicolon:
  assumes "tag_names = PList (map AStr names) \<or> tag_names = PTuple (map AStr names)"
  shows "get_related_tags_for_a_tag_url tag_names rs re ex tg st lim off ob so H w =
           (add_optional_params H (''related_tags?tag_names='' @ str_join '';'' names)
              [(''&realtime_start='', map_option VStr rs), (''&realtime_end='', map_option VStr re),
               (''&exclude_tag_names='', map_option VList ex),
               (''&tag_group_id='', map_option VStr tg), (''&search_text='', map_option VStr st),
               (''&limit='', map_option VInt lim), (''&offset='', map_option VInt off),
               (''&order_by='', map_option VStr ob), (''&sort_order='', map_option VStr so)], w)
         \<and> (\<exists>rest. get_related_tags_for_a_tag_url tag_names rs re ex tg st lim off ob so
                       (spec_helpers default_start default_end fetch) w =
                     (Inr (''related_tags?tag_names='' @ str_join '';'' names @ rest), w))
         \<and> get_series_matching_tags_url tag_names rs re H w =
             (case get_realtime_date H rs re of
                Inl e \<Rightarrow> Inl e
              | Inr period \<Rightarrow> Inr (''tags/series?tag_names='' @ str_join '';'' names @ period), w)"
proof -
  have j: "py_join '';'' tag_names = Inr (str_join '';'' names)"
    using assms py_join_strings by auto
  have a: "\<And>H. get_related_tags_for_a_tag_url tag_names rs re ex tg st lim off ob so H w =
           (add_optional_params H (''related_tags?tag_names='' @ str_join '';'' names)
              [(''&realtime_start='', map_option VStr rs), (''&realtime_end='', map_option VStr re),
               (''&exclude_tag_names='', map_option VList ex),
               (''&tag_group_id='', map_option VStr tg), (''&search_text='', map_option VStr st),
               (''&limit='', map_option VInt lim), (''&offset='', map_option VInt off),
               (''&order_by='', map_option VStr ob), (''&sort_order='', map_option VStr so)], w)"
    by (simp add: get_related_tags_for_a_tag_url_def append_tag_names_result j py_bind_def py_lift_def)
  have b: "\<exists>rest. get_related_tags_for_a_tag_url tag_names rs re ex tg st lim off ob so
                       (spec_helpers default_start default_end fetch) w =
                     (Inr (''related_tags?tag_names='' @ str_join '';'' names @ rest), w)"
    unfolding a by (simp add: spec_helpers_def add_optional_params_spec_frags)
  have c: "get_series_matching_tags_url tag_names rs re H w =
             (case get_realtime_date H rs re of
                Inl e \<Rightarrow> Inl e
              | Inr period \<Rightarrow> Inr (''tags/series?tag_names='' @ str_join '';'' names @ period), w)"
    by (simp add: series_url_result j split: sum.splits)
  from a[of H] b c show ?thesis by blast
qed

theorem tag_names_joined_with_semicolon_witness:
  "get_series_matching_tags_url (PList (map AStr [''usa'', ''gdp'', ''annual''])) None None
       echo_helpers (start_world ())
     = (Inr ''tags/series?tag_names=usa;gdp;annual&realtime_start=1776-07-04&realtime_end=9999-12-31'',
        start_world ())"
  using tag_names_joined_with_semicolon[of "PList (map AStr [''usa'', ''gdp'', ''annual''])"
          "[''usa'', ''gdp'', ''annual'']" None None None None None None None None None
          echo_helpers "start_world ()" "''1776-07-04''" "''9999-12-31''" "\<lambda>url. Inr url"]
  by (simp add: echo_helpers_def spec_helpers_def get_realtime_date_spec_def)

text \<open>
  What the block around \<open>str(source_id)\<close> does once \<open>str\<close> has raised \<open>TypeError\<close>: the
  handler formats its message with \<open>%s\<close>, which applies \<open>str\<close> to \<open>source_id\<close> a second
  time.  When that second conversion succeeds the message is printed and the prefix stays
  without the value; when it raises, its exception leaves the block and nothing is printed.
\<close>

lemma append_source_id_handler:
  assumes "py_str source_id = Inl TypeError"
  shows "append_source_id p source_id w =
           (case py_str (after_str source_id) of
              Inr s \<Rightarrow> (Inr p, w\<lparr>stdout := stdout w @ [''Unable to cast source_id '' @ s @ '' to str'']\<rparr>)
            | Inl e \<Rightarrow> (Inl e, w))"
  using assms
  by (cases "py_str (after_str source_id)")
     (simp_all add: append_source_id_def py_percent_s_def py_defs)

lemma source_id_handler_can_complete:
  "get_a_source (AObj (Inl TypeError) [Inr ''x7'']) None None echo_helpers
     (start_world () :: (string, unit) world)
   = (Inr ''source?source_id='',
      \<lparr>self = \<lparr>source_stack = [''get_a_source'' \<mapsto> ''source?source_id=''],
                tag_stack = Map.empty, other_attrs = ()\<rparr>,
       stdout = [''Unable to cast source_id x7 to str''],
       requests = [''source?source_id='']\<rparr>)"
  by (simp add: get_a_source_def get_a_source_url_def append_source_id_handler
        fetch_store_return_def py_defs concrete_defs)

text \<open>
  C4.  The code at a \<open>source_id\<close> whose \<open>__str__\<close> raises \<open>TypeError\<close> whenever it is
  called: \<open>str(source_id)\<close> raises and the handler is entered, the \<open>%s\<close> of its message
  raises again, and the \<open>TypeError\<close> leaves \<open>get_a_source\<close> and
  \<open>get_releases_for_a_source\<close> with nothing printed and nothing fetched.
\<close>

theorem source_id_handler_raises_again:
  "py_str (AObj (Inl TypeError) []) = Inl TypeError
   \<and> get_a_source (AObj (Inl TypeError) []) None None echo_helpers
        (start_world () :: (string, unit) world)
       = (Inl TypeError, start_world ())
   \<and> get_releases_for_a_source (AObj (Inl TypeError) []) None None None None None None
        echo_helpers (start_world () :: (string, unit) world)
       = (Inl TypeError, start_world ())"
  by (simp add: get_a_source_def get_a_source_url_def get_releases_for_a_source_def
        get_releases_for_a_source_url_def append_source_id_def py_percent_s_def py_defs)

text \<open>
  The sibling handler in tags.py prints a constant and always completes.  In every call of
  \<open>get_related_tags_for_a_tag\<close> or \<open>get_series_matching_tags\<close> in which
  \<open>";".join(tag_names)\<close> raises a \<open>TypeError\<close>, the error is not propagated: the method
  prints \<open>tag_names must be list or tuple\<close> and goes on with the URL prefix lacking the tag
  names.  Once the inherited helper has completed the URL from that prefix, the fetch is
  performed on it, and the call returns or raises what the fetch does.
\<close>

lemma tag_names_type_error_is_swallowed:
  assumes "py_join '';'' tag_names = Inl TypeError"
  shows
   "(add_optional_params H ''related_tags?tag_names=''
        [(''&realtime_start='', map_option VStr rs), (''&realtime_end='', map_option VStr re),
         (''&exclude_tag_names='', map_option VList ex),
         (''&tag_group_id='', map_option VStr tg), (''&search_text='', map_option VStr st),
         (''&limit='', map_option VInt lim), (''&offset='', map_option VInt off),
         (''&order_by='', map_option VStr ob), (''&sort_order='', map_option VStr so)] = Inr u
      \<longrightarrow> fst (get_related_tags_for_a_tag tag_names rs re ex tg st lim off ob so H w)
            = fetch_data H u
          \<and> requests (snd (get_related_tags_for_a_tag tag_names rs re ex tg st lim off ob so H w))
            = requests w @ [u]
          \<and> stdout (snd (get_related_tags_for_a_tag tag_names rs re ex tg st lim off ob so H w))
            = stdout w @ [''tag_names must be list or tuple''])
    \<and> (get_realtime_date H rs re = Inr period
      \<longrightarrow> fst (get_series_matching_tags tag_names ex rs re lim off ob so H w)
            = fetch_data H (''tags/series?tag_names='' @ period)
          \<and> requests (snd (get_series_matching_tags tag_names ex rs re lim off ob so H w))
            = requests w @ [''tags/series?tag_names='' @ period]
          \<and> stdout (snd (get_series_matching_tags tag_names ex rs re lim off ob so H w))
            = stdout w @ [''tag_names must be list or tuple''])"
proof -
  let ?w1 = "w\<lparr>stdout := stdout w @ [''tag_names must be list or tuple'']\<rparr>"
  let ?related = "Get_related_tags_for_a_tag tag_names rs re ex tg st lim off ob so"
  let ?series = "Get_series_matching_tags tag_names ex rs re lim off ob so"
  have a: "fst (invoke ?related H w) = fetch_data H u
           \<and> requests (snd (invoke ?related H w)) = requests w @ [u]
           \<and> stdout (snd (invoke ?related H w)) = stdout w @ [''tag_names must be list or tuple'']"
    if h: "add_optional_params H ''related_tags?tag_names=''
        [(''&realtime_start='', map_option VStr rs), (''&realtime_end='', map_option VStr re),
         (''&exclude_tag_names='', map_option VList ex),
         (''&tag_group_id='', map_option VStr tg), (''&search_text='', map_option VStr st),
         (''&limit='', map_option VInt lim), (''&offset='', map_option VInt off),
         (''&order_by='', map_option VStr ob), (''&sort_order='', map_option VStr so)] = Inr u"
  proof -
    have "call_url ?related H w = (Inr u, ?w1)"
      by (simp add: get_related_tags_for_a_tag_url_def append_tag_names_result assms h
            py_bind_def py_lift_def)
    from invoke_after_url(1-3)[OF this] show ?thesis by simp
  qed
  have b: "fst (invoke ?series H w) = fetch_data H (''tags/series?tag_names='' @ period)
           \<and> requests (snd (invoke ?series H w)) = requests w @ [''tags/series?tag_names='' @ period]
           \<and> stdout (snd (invoke ?series H w)) = stdout w @ [''tag_names must be list or tuple'']"
    if h: "get_realtime_date H rs re = Inr period"
  proof -
    have "call_url ?series H w = (Inr (''tags/series?tag_names='' @ period), ?w1)"
      by (simp add: series_url_result assms h)
    from invoke_after_url(1-3)[OF this] show ?thesis by simp
  qed
  from a b show ?thesis by simp
qed

lemma tag_names_type_error_at_None:
  "py_join '';'' (Atom ANone) = Inl TypeError
   \<and> fst (get_series_matching_tags (Atom ANone) None None None None None None None echo_helpers
          (start_world () :: (string, unit) world))
       = Inr ''tags/series?tag_names=&realtime_start=1776-07-04&realtime_end=9999-12-31''
   \<and> requests (snd (get_series_matching_tags (Atom ANone) None None None None None None None
          echo_helpers (start_world () :: (string, unit) world)))
       = [''tags/series?tag_names=&realtime_start=1776-07-04&realtime_end=9999-12-31'']
   \<and> stdout (snd (get_series_matching_tags (Atom ANone) None None None None None None None
          echo_helpers (start_world () :: (string, unit) world)))
       = [''tag_names must be list or tuple'']"
proof -
  have j: "py_join '';'' (Atom ANone) = Inl TypeError" by simp
  have p: "get_realtime_date echo_helpers None None
             = Inr ''&realtime_start=1776-07-04&realtime_end=9999-12-31''"
    by (simp add: concrete_defs)
  note r = tag_names_type_error_is_swallowed[OF j, THEN conjunct2, THEN mp, OF p,
             of None None None None None "start_world () :: (string, unit) world"]
  from j r show ?thesis by (simp add: concrete_defs)
qed

section \<open>The URLs as the specification describes the inherited helpers\<close>

text \<open>
  C1.  With \<open>_add_optional_params\<close> as the specification describes it, the URL of each of
  \<open>get_all_sources\<close>, \<open>get_a_source\<close>, \<open>get_releases_for_a_source\<close>, \<open>get_tags\<close> and
  \<open>get_related_tags_for_a_tag\<close> is its prefix followed by the query fragments of its
  optional parameters in the order of the dictionary, where the fragment of a parameter
  that is \<open>None\<close> is empty and the fragment of a set parameter is its key followed by the
  value as given: a string unchanged, an int in decimal, a list joined by \<open>;\<close>.
\<close>

theorem optional_parameters_filtered:
  fixes H :: "'j helpers"
  assumes H: "H = spec_helpers default_start default_end fetch"
  shows
   "frag k None = [] \<and> frag k (Some (VStr s)) = k @ s \<and> frag k (Some (VInt n)) = k @ str_int n
    \<and> frag k (Some (VList xs)) = k @ str_join '';'' xs
    \<and> get_all_sources_url rs re lim off ob so H w =
         (Inr (''sources?'' @
               frag ''&realtime_start='' (map_option VStr rs) @
               frag ''&realtime_end='' (map_option VStr re) @
               frag ''&limit='' (map_option VInt lim) @
               frag ''&offset='' (map_option VInt off) @
               frag ''&order_by='' (map_option VStr ob) @
               frag ''&sort_order='' (map_option VStr so)), w)
    \<and> (append_source_id ''source?source_id='' sid w = (Inr p, w1) \<longrightarrow>
          get_a_source_url sid rs re H w =
            (Inr (p @
                  frag ''&realtime_start='' (map_option VStr rs) @
                  frag ''&realtime_end='' (map_option VStr re)), w1))
    \<and> (append_source_id ''source/releases?source_id='' sid w = (Inr p, w1) \<longrightarrow>
          get_releases_for_a_source_url sid rs re lim off ob so H w =
            (Inr (p @
                  frag ''&realtime_start='' (map_option VStr rs) @
                  frag ''&realtime_end='' (map_option VStr re) @
                  frag ''&limit='' (map_option VInt lim) @
                  frag ''&offset='' (map_option VInt off) @
                  frag ''&order_by='' (map_option VStr ob) @
                  frag ''&sort_order='' (map_option VStr so)), w1))
    \<and> get_tags_url rs re tn tg st lim off ob so H w =
         (Inr (''tags?'' @
               frag ''&realtime_start='' (map_option VStr rs) @
               frag ''&realtime_end='' (map_option VStr re) @
               frag ''&tag_names='' (map_option VList tn) @
               frag ''&tag_group_id='' (map_option VStr tg) @
               frag ''&search_text='' (map_option VStr st) @
               frag ''&limit='' (map_option VInt lim) @
               frag ''&offset='' (map_option VInt off) @
               frag ''&order_by='' (map_option VStr ob) @
               frag ''&sort_order='' (map_option VStr so)), w)
    \<and> (append_tag_names ''related_tags?tag_names='' tag_names w = (Inr p, w1) \<longrightarrow>
          get_related_tags_for_a_tag_url tag_names rs re ex tg st lim off ob so H w =
            (Inr (p @
                  frag ''&realtime_start='' (map_option VStr rs) @
                  frag ''&realtime_end='' (map_option VStr re) @
                  frag ''&exclude_tag_names='' (map_option VList ex) @
                  frag ''&tag_group_id='' (map_option VStr tg) @
                  frag ''&search_text='' (map_option VStr st) @
                  frag ''&limit='' (map_option VInt lim) @
                  frag ''&offset='' (map_option VInt off) @
                  frag ''&order_by='' (map_option VStr ob) @
                  frag ''&sort_order='' (map_option VStr so)), w1))"
proof -
  have ap: "\<And>url args. add_optional_params H url args =
              Inr (url @ concat (map (\<lambda>(k, v). frag k v) args))"
    by (simp add: H spec_helpers_def add_optional_params_spec_frags)
  have f: "frag k None = [] \<and> frag k (Some (VStr s)) = k @ s
           \<and> frag k (Some (VInt n)) = k @ str_int n
           \<and> frag k (Some (VList xs)) = k @ str_join '';'' xs"
    by (simp add: frag_def)
  have a: "get_all_sources_url rs re lim off ob so H w =
         (Inr (''sources?'' @
               frag ''&realtime_start='' (map_option VStr rs) @
               frag ''&realtime_end='' (map_option VStr re) @
               frag ''&limit='' (map_option VInt lim) @
               frag ''&offset='' (map_option VInt off) @
               frag ''&order_by='' (map_option VStr ob) @
               frag ''&sort_order='' (map_option VStr so)), w)"
    by (simp add: get_all_sources_url_def py_lift_def ap)
  have b: "append_source_id ''source?source_id='' sid w = (Inr p, w1) \<longrightarrow>
          get_a_source_url sid rs re H w =
            (Inr (p @
                  frag ''&realtime_start='' (map_option VStr rs) @
                  frag ''&realtime_end='' (map_option VStr re)), w1)"
    by (simp add: get_a_source_url_def py_bind_def py_lift_def ap)
  have c: "append_source_id ''source/releases?source_id='' sid w = (Inr p, w1) \<longrightarrow>
          get_releases_for_a_source_url sid rs re lim off ob so H w =
            (Inr (p @
                  frag ''&realtime_start='' (map_option VStr rs) @
                  frag ''&realtime_end='' (map_option VStr re) @
                  frag ''&limit='' (map_option VInt lim) @
                  frag ''&offset='' (map_option VInt off) @
                  frag ''&order_by='' (map_option VStr ob) @
                  frag ''&sort_order='' (map_option VStr so)), w1)"
    by (simp add: get_releases_for_a_source_url_def py_bind_def py_lift_def ap)
  have d: "get_tags_url rs re tn tg st lim off ob so H w =
         (Inr (''tags?'' @
               frag ''&realtime_start='' (map_option VStr rs) @
               frag ''&realtime_end='' (map_option VStr re) @
               frag ''&tag_names='' (map_option VList tn) @
               frag ''&tag_group_id='' (map_option VStr tg) @
               frag ''&search_text='' (map_option VStr st) @
               frag ''&limit='' (map_option VInt lim) @
               frag ''&offset='' (map_option VInt off) @
               frag ''&order_by='' (map_option VStr ob) @
               frag ''&sort_order='' (map_option VStr so)), w)"
    by (simp add: get_tags_url_def py_lift_def ap)
  have e: "append_tag_names ''related_tags?tag_names='' tag_names w = (Inr p, w1) \<longrightarrow>
          get_related_tags_for_a_tag_url tag_names rs re ex tg st lim off ob so H w =
            (Inr (p @
                  frag ''&realtime_start='' (map_option VStr rs) @
                  frag ''&realtime_end='' (map_option VStr re) @
                  frag ''&exclude_tag_names='' (map_option VList ex) @
                  frag ''&tag_group_id='' (map_option VStr tg) @
                  frag ''&search_text='' (map_option VStr st) @
                  frag ''&limit='' (map_option VInt lim) @
                  frag ''&offset='' (map_option VInt off) @
                  frag ''&order_by='' (map_option VStr ob) @
                  frag ''&sort_order='' (map_option VStr so)), w1)"
    by (simp add: get_related_tags_for_a_tag_url_def py_bind_def py_lift_def ap)
  from f a b c d e show ?thesis by blast
qed

theorem optional_parameters_filtered_witness:
  "append_tag_names ''related_tags?tag_names='' (PList [AStr ''usa'']) (start_world ())
     = (Inr ''related_tags?tag_names=usa'', start_world ())
   \<and> get_related_tags_for_a_tag_url (PList [AStr ''usa'']) None (Some ''2020-01-01'')
        (Some [''quarterly'', ''nsa'']) None None (Some 5) None None (Some ''desc'')
        echo_helpers (start_world ())
     = (Inr ''related_tags?tag_names=usa&realtime_end=2020-01-01&exclude_tag_names=quarterly;nsa&limit=5&sort_order=desc'',
        start_world ())"
proof -
  have h: "append_tag_names ''related_tags?tag_names='' (PList [AStr ''usa'']) (start_world ())
     = (Inr ''related_tags?tag_names=usa'', start_world ())"
    by (simp add: append_tag_names_result)
  have H: "echo_helpers = spec_helpers ''1776-07-04'' ''9999-12-31'' (\<lambda>url. Inr url)"
    by (simp add: echo_helpers_def)
  note r = optional_parameters_filtered[OF H, where tag_names = "PList [AStr ''usa'']"
        and w = "start_world ()" and p = "''related_tags?tag_names=usa''" and ?w1.0 = "start_world ()"
        and rs = None and re = "Some ''2020-01-01''" and ex = "Some [''quarterly'', ''nsa'']"
        and tg = None and st = None and lim = "Some 5" and off = None and ob = None
        and so = "Some ''desc''"]
  have "get_related_tags_for_a_tag_url (PList [AStr ''usa'']) None (Some ''2020-01-01'')
        (Some [''quarterly'', ''nsa'']) None None (Some 5) None None (Some ''desc'')
        echo_helpers (start_world ())
     = (Inr ''related_tags?tag_names=usa&realtime_end=2020-01-01&exclude_tag_names=quarterly;nsa&limit=5&sort_order=desc'',
        start_world ())"
    using r[THEN conjunct2, THEN conjunct2, THEN conjunct2, THEN conjunct2, THEN conjunct2,
            THEN conjunct2, THEN conjunct2, THEN conjunct2, THEN mp, OF h]
    by (simp add: frag_def str_int_5)
  with h show ?thesis by simp
qed

text \<open>
  C7.  With \<open>_get_realtime_date\<close> as the specification describes it, every call of
  \<open>get_series_matching_tags\<close> fetches the URL made of the prefix \<open>tags/series?tag_names=\<close>,
  the tag names joined by \<open>;\<close> (nothing when the join raised \<open>TypeError\<close>), and the
  realtime window, in which the default of the instance stands for each of
  \<open>realtime_start\<close> and \<open>realtime_end\<close> that is \<open>None\<close>.
\<close>

theorem series_url_has_realtime_window:
  "requests (snd (get_series_matching_tags tag_names ex realtime_start realtime_end lim off ob so
                    (spec_helpers default_start default_end fetch) w))
     = requests w @
       [''tags/series?tag_names='' @
        (case py_join '';'' tag_names of Inl e \<Rightarrow> [] | Inr joined \<Rightarrow> joined) @
        ''&realtime_start='' @ (case realtime_start of None \<Rightarrow> default_start | Some s \<Rightarrow> s) @
        ''&realtime_end='' @ (case realtime_end of None \<Rightarrow> default_end | Some e \<Rightarrow> e)]"
proof -
  let ?H = "spec_helpers default_start default_end fetch"
  let ?c = "Get_series_matching_tags tag_names ex realtime_start realtime_end lim off ob so"
  obtain w1 where
    "call_url ?c ?H w = (Inr (''tags/series?tag_names='' @
        (case py_join '';'' tag_names of Inl e \<Rightarrow> [] | Inr joined \<Rightarrow> joined) @
        ''&realtime_start='' @ (case realtime_start of None \<Rightarrow> default_start | Some s \<Rightarrow> s) @
        ''&realtime_end='' @ (case realtime_end of None \<Rightarrow> default_end | Some e \<Rightarrow> e)), w1)"
    by (simp add: series_url_result spec_helpers_def get_realtime_date_spec_def)
  from invoke_after_url(2)[OF this] show ?thesis by simp
qed

theorem series_url_has_realtime_window_witness:
  "requests (snd (get_series_matching_tags (PList [AStr ''usa'', AStr ''gdp'']) None
                    (Some ''2020-01-01'') None None None None None echo_helpers (start_world ())))
     = [''tags/series?tag_names=usa;gdp&realtime_start=2020-01-01&realtime_end=9999-12-31'']"
  using series_url_has_realtime_window[of "PList [AStr ''usa'', AStr ''gdp'']" None
          "Some ''2020-01-01''" None None None None None "''1776-07-04''" "''9999-12-31''"
          "\<lambda>url. Inr url" "start_world ()"]
  by (simp add: echo_helpers_def start_world_def)

section \<open>The pipeline of \<open>get_series_matching_tags\<close>\<close>

text \<open>\<open>get_series_matching_tags\<close> never calls \<open>_add_optional_params\<close>: replacing that
  helper changes nothing.\<close>

lemma series_never_adds_optional_params:
  "get_series_matching_tags tn ex rs re lim off ob so (H\<lparr>add_optional_params := g\<rparr>) w =
   get_series_matching_tags tn ex rs re lim off ob so H w"
  by (cases "py_join '';'' tn"; cases "get_realtime_date H rs re")
     (simp_all add: series_as_pipeline series_url_result py_bind_def fetch_store_return_def
        call_fetch_data_def)

text \<open>
  C2.  The code at the input \<open>tag_names = ["usa"], exclude_tag_names = ["quarterly"],
  limit = 5\<close>: \<open>get_series_matching_tags\<close> fetches a URL without \<open>exclude_tag_names\<close> and
  \<open>limit\<close>, because it returns before the lines that would append them, whereas the
  sibling \<open>get_related_tags_for_a_tag\<close> appends both.
\<close>

theorem series_request_lacks_optional_parameters:
  "requests (snd (get_series_matching_tags (PList [AStr ''usa'']) (Some [''quarterly'']) None None
                    (Some 5) None None None echo_helpers (start_world () :: (string, unit) world)))
     = [''tags/series?tag_names=usa&realtime_start=1776-07-04&realtime_end=9999-12-31'']
   \<and> requests (snd (get_related_tags_for_a_tag (PList [AStr ''usa'']) None None
                    (Some [''quarterly'']) None None (Some 5) None None None echo_helpers
                    (start_world () :: (string, unit) world)))
     = [''related_tags?tag_names=usa&exclude_tag_names=quarterly&limit=5'']"
  by (simp add: series_as_pipeline series_url_result get_related_tags_for_a_tag_def
        get_related_tags_for_a_tag_url_def append_tag_names_result fetch_store_return_def py_defs
        concrete_defs str_int_5)


end
